theory Spec2Isabelle
  imports Main
begin

section \<open>JavaScript strings and numbers\<close>

text \<open>
  A JavaScript string is a sequence of UTF-16 code units; a code unit is modelled by its
  number, so that the em dash of the region patterns is the single unit 8212, as it is for
  the regular-expression engine of the program. \<open>js\<close> reads an ASCII literal.
  Numbers are \<open>int\<close> (line numbers stay far below the 2^53 limit of exact doubles).
\<close>

type_synonym jstring = "nat list"

definition js :: "string \<Rightarrow> jstring" where
  "js s = map of_char s"

text \<open>The set matched by \<open>\s\<close> and stripped by \<open>trim\<close>: WhiteSpace and LineTerminator.\<close>

definition is_space :: "nat \<Rightarrow> bool" where
  "is_space c = (c = 9 \<or> c = 10 \<or> c = 11 \<or> c = 12 \<or> c = 13 \<or> c = 32 \<or> c = 160
     \<or> c = 5760 \<or> (8192 \<le> c \<and> c \<le> 8202) \<or> c = 8232 \<or> c = 8233 \<or> c = 8239
     \<or> c = 8287 \<or> c = 12288 \<or> c = 65279)"

definition is_digit :: "nat \<Rightarrow> bool" where
  "is_digit c = (48 \<le> c \<and> c \<le> 57)"

text \<open>\<open>\w\<close> is \<open>[A-Za-z0-9_]\<close>.\<close>

definition is_word :: "nat \<Rightarrow> bool" where
  "is_word c = ((65 \<le> c \<and> c \<le> 90) \<or> (97 \<le> c \<and> c \<le> 122) \<or> is_digit c \<or> c = 95)"

text \<open>\<open>.\<close> matches every unit but the line terminators.\<close>

definition is_dot :: "nat \<Rightarrow> bool" where
  "is_dot c = (c \<noteq> 10 \<and> c \<noteq> 13 \<and> c \<noteq> 8232 \<and> c \<noteq> 8233)"

definition is_line_terminator :: "nat \<Rightarrow> bool" where
  "is_line_terminator c = (c = 10 \<or> c = 13 \<or> c = 8232 \<or> c = 8233)"

section \<open>Regular expressions\<close>

text \<open>
  The patterns of the program use literals, character classes, alternation, capturing
  groups, the optional quantifier on a group, the anchors, and the quantifiers
  \<open>*\<close>, \<open>+\<close>, \<open>{3,}\<close> (greedy or lazy) on a single-character atom only. The datatype
  has exactly these forms. \<open>LitI\<close> is a literal under the \<open>i\<close> flag, \<open>BolM\<close> is \<open>^\<close>
  under the \<open>m\<close> flag.
\<close>

datatype mode = Greedy | Lazy

datatype re =
    Eps
  | Lit jstring
  | LitI jstring
  | Cls "nat \<Rightarrow> bool"
  | Rep mode nat "nat \<Rightarrow> bool"
  | Seq re re
  | Alt re re
  | Opt re
  | Grp nat re
  | Bol
  | BolM
  | Eol

type_synonym caps = "nat \<Rightarrow> jstring option"

text \<open>
  The matcher follows the backtracking semantics of the language standard: a matcher takes
  a continuation, and a choice point tries its alternatives in priority order, taking the
  first for which the continuation succeeds. The state is the unit before the current
  position (\<open>None\<close> at the start of the input) and the rest of the input.
\<close>

type_synonym 'r cont = "nat option \<Rightarrow> jstring \<Rightarrow> caps \<Rightarrow> 'r option"

fun lit :: "jstring \<Rightarrow> 'r cont \<Rightarrow> 'r cont" where
  "lit [] k p s c = k p s c"
| "lit (a # w) k p [] c = None"
| "lit (a # w) k p (x # xs) c = (if x = a then lit w k (Some x) xs c else None)"

text \<open>
  Under the \<open>i\<close> flag two units match when their canonical forms agree. For the ASCII
  letters of the program's patterns that is the letter in either case (a unit outside
  ASCII never canonicalises to an ASCII letter).
\<close>

definition canon :: "nat \<Rightarrow> nat" where
  "canon c = (if 97 \<le> c \<and> c \<le> 122 then c - 32 else c)"

fun liti :: "jstring \<Rightarrow> 'r cont \<Rightarrow> 'r cont" where
  "liti [] k p s c = k p s c"
| "liti (a # w) k p [] c = None"
| "liti (a # w) k p (x # xs) c = (if canon x = canon a then liti w k (Some x) xs c else None)"

fun rep_greedy :: "(nat \<Rightarrow> bool) \<Rightarrow> nat \<Rightarrow> 'r cont \<Rightarrow> 'r cont" where
  "rep_greedy P n k p [] c = (if n = 0 then k p [] c else None)"
| "rep_greedy P n k p (x # xs) c =
     (if P x
      then (case rep_greedy P (n - 1) k (Some x) xs c of
              Some r \<Rightarrow> Some r
            | None \<Rightarrow> if n = 0 then k p (x # xs) c else None)
      else if n = 0 then k p (x # xs) c else None)"

fun rep_lazy :: "(nat \<Rightarrow> bool) \<Rightarrow> nat \<Rightarrow> 'r cont \<Rightarrow> 'r cont" where
  "rep_lazy P n k p [] c = (if n = 0 then k p [] c else None)"
| "rep_lazy P n k p (x # xs) c =
     (if n = 0
      then (case k p (x # xs) c of
              Some r \<Rightarrow> Some r
            | None \<Rightarrow> if P x then rep_lazy P 0 k (Some x) xs c else None)
      else if P x then rep_lazy P (n - 1) k (Some x) xs c else None)"

primrec m :: "re \<Rightarrow> 'r cont \<Rightarrow> 'r cont" where
  "m Eps k = k"
| "m (Lit w) k = lit w k"
| "m (LitI w) k = liti w k"
| "m (Cls P) k = (\<lambda>p s c. case s of [] \<Rightarrow> None | x # xs \<Rightarrow> if P x then k (Some x) xs c else None)"
| "m (Rep md n P) k = (case md of Greedy \<Rightarrow> rep_greedy P n k | Lazy \<Rightarrow> rep_lazy P n k)"
| "m (Seq a b) k = m a (m b k)"
| "m (Alt a b) k = (\<lambda>p s c. case m a k p s c of Some r \<Rightarrow> Some r | None \<Rightarrow> m b k p s c)"
| "m (Opt a) k = (\<lambda>p s c. case m a k p s c of Some r \<Rightarrow> Some r | None \<Rightarrow> k p s c)"
| "m (Grp i a) k =
     (\<lambda>p s c. m a (\<lambda>p' s' c'. k p' s' (c'(i \<mapsto> take (length s - length s') s))) p s c)"
| "m Bol k = (\<lambda>p s c. if p = None then k p s c else None)"
| "m BolM k = (\<lambda>p s c. if p = None \<or> is_line_terminator (the p) then k p s c else None)"
| "m Eol k = (\<lambda>p s c. if s = [] then k p s c else None)"

definition seq :: "re list \<Rightarrow> re" where
  "seq rs = foldr Seq rs Eps"

text \<open>
  One attempt at a position gives the rest of the input after the match and the captures.
  \<open>search\<close> is the loop of \<open>RegExp.prototype.exec\<close>: the attempt is made at each start
  position from the left, and the result is the number of units skipped, the match and
  the captures.
\<close>

definition attempt :: "re \<Rightarrow> nat option \<Rightarrow> jstring \<Rightarrow> (jstring \<times> caps) option" where
  "attempt r p s = m r (\<lambda>p' s' c'. Some (s', c')) p s (\<lambda>i. None)"

fun search_from :: "re \<Rightarrow> nat \<Rightarrow> nat option \<Rightarrow> jstring \<Rightarrow> (nat \<times> jstring \<times> caps) option" where
  "search_from r i p s =
     (case attempt r p s of
        Some (s', c) \<Rightarrow> Some (i, take (length s - length s') s, c)
      | None \<Rightarrow> (case s of [] \<Rightarrow> None | x # xs \<Rightarrow> search_from r (i + 1) (Some x) xs))"

definition search :: "re \<Rightarrow> jstring \<Rightarrow> (nat \<times> jstring \<times> caps) option" where
  "search r s = search_from r 0 None s"

definition test :: "re \<Rightarrow> jstring \<Rightarrow> bool" where
  "test r s = (search r s \<noteq> None)"

section \<open>String operations of the standard library\<close>

text \<open>\<open>content.split('\n')\<close>: the result always has at least one element.\<close>

fun split_nl :: "jstring \<Rightarrow> jstring list" where
  "split_nl [] = [[]]"
| "split_nl (x # xs) =
     (if x = 10 then [] # split_nl xs
      else (case split_nl xs of [] \<Rightarrow> [[x]] | l # ls \<Rightarrow> (x # l) # ls))"


definition trim :: "jstring \<Rightarrow> jstring" where
  "trim s = rev (dropWhile is_space (rev (dropWhile is_space s)))"

fun starts_with :: "jstring \<Rightarrow> jstring \<Rightarrow> bool" where
  "starts_with s [] = True"
| "starts_with [] (a # w) = False"
| "starts_with (x # xs) (a # w) = (x = a \<and> starts_with xs w)"

text \<open>\<open>s.includes(w)\<close>.\<close>

fun str_includes :: "jstring \<Rightarrow> jstring \<Rightarrow> bool" where
  "str_includes [] w = (w = [])"
| "str_includes (x # xs) w = (starts_with (x # xs) w \<or> str_includes xs w)"

text \<open>\<open>s.padEnd(n)\<close> and \<open>s.padStart(n)\<close> fill with spaces and never truncate.\<close>

definition padEnd :: "jstring \<Rightarrow> nat \<Rightarrow> jstring" where
  "padEnd s n = s @ replicate (n - length s) 32"

definition padStart :: "jstring \<Rightarrow> nat \<Rightarrow> jstring" where
  "padStart s n = replicate (n - length s) 32 @ s"

text \<open>\<open>String(n)\<close> of an integer: its decimal digits, with a minus sign when negative.\<close>

fun digits :: "nat \<Rightarrow> jstring" where
  "digits n = (if n < 10 then [48 + n] else digits (n div 10) @ [48 + n mod 10])"

declare digits.simps [simp del]

definition String_int :: "int \<Rightarrow> jstring" where
  "String_int i = (if i < 0 then 45 # digits (nat (- i)) else digits (nat i))"

text \<open>
  \<open>parseInt(s)\<close>: leading white space is skipped, a sign is read, and the longest prefix
  of decimal digits is the value; without a digit the result is \<open>NaN\<close>.
\<close>

datatype jsnum = Num int | NaN

definition digits_val :: "jstring \<Rightarrow> int" where
  "digits_val ds = foldl (\<lambda>a d. 10 * a + (int d - 48)) 0 ds"

definition parseInt :: "jstring \<Rightarrow> jsnum" where
  "parseInt s =
     (let t = dropWhile is_space s;
          neg = (t \<noteq> [] \<and> hd t = 45);
          u = (if t \<noteq> [] \<and> (hd t = 45 \<or> hd t = 43) then tl t else t);
          ds = takeWhile is_digit u
      in if ds = [] then NaN else Num (if neg then - digits_val ds else digits_val ds))"

text \<open>Subtraction of numbers, and the comparison \<open>a > b\<close> (false when an operand is \<open>NaN\<close>).\<close>

fun num_sub :: "jsnum \<Rightarrow> jsnum \<Rightarrow> jsnum" where
  "num_sub (Num a) (Num b) = Num (a - b)"
| "num_sub a b = NaN"


section \<open>Sections and language plugins\<close>

record Section =
  name :: jstring
  line :: int
  endLine :: int
  desc :: jstring

text \<open>
  A plugin of the table \<open>LANGUAGE_PLUGINS\<close>. The library (\<open>src/index.mjs\<close>) and the
  command-line script carry the same table; the script's entries have \<open>autoPatterns\<close> in
  addition, which the library never reads. The field \<open>indexFormat\<close> is read nowhere and is
  left out.
\<close>

record autoPattern =
  pattern :: re
  target :: jstring
  priority :: "nat option"

record plugin =
  pname :: jstring
  extensions :: "jstring list"
  regionStart :: "re option"
  regionEnd :: "re option"
  sectionMarker :: "re option"
  autoPatterns :: "autoPattern list"

abbreviation ws0 :: re where "ws0 \<equiv> Rep Greedy 0 is_space"
abbreviation ws1 :: re where "ws1 \<equiv> Rep Greedy 1 is_space"
abbreviation word1 :: re where "word1 \<equiv> Rep Greedy 1 is_word"

definition is_dash :: "nat \<Rightarrow> bool" where
  "is_dash c = (c = 8212 \<or> c = 45)"

text \<open>The common tail \<open>(.+?)(?:\s*[D\-]\s*(.+))?$\<close> (\<open>D\<close> the em dash) of the region-start patterns.\<close>

definition region_tail :: "re list" where
  "region_tail = [Grp 1 (Rep Lazy 1 is_dot),
     Opt (seq [ws0, Cls is_dash, ws0, Grp 2 (Rep Greedy 1 is_dot)]), Eol]"

text \<open>The common part \<open>\s*(?:={3,}\s*)?SECTION:\s*(.+?)(?:\s*={3,})?\s*$\<close> (flag \<open>i\<close>) of the markers.\<close>

definition marker_tail :: "re list" where
  "marker_tail = [ws0, Opt (seq [Rep Greedy 3 (\<lambda>c. c = 61), ws0]), LitI (js ''SECTION:''), ws0,
     Grp 1 (Rep Lazy 1 is_dot), Opt (seq [ws0, Rep Greedy 3 (\<lambda>c. c = 61)]), ws0, Eol]"

definition ts_regionStart :: re where
  "ts_regionStart = seq ([Bol, Lit (js ''//#region''), ws1] @ region_tail)"

definition ts_regionEnd :: re where
  "ts_regionEnd = seq [Bol, Lit (js ''//#endregion'')]"

definition ts_sectionMarker :: re where
  "ts_sectionMarker = seq (Lit (js ''//'') # marker_tail)"

definition py_regionStart :: re where
  "py_regionStart = seq ([Bol, Lit (js ''#''), ws0, Lit (js ''region''), ws0,
     Rep Greedy 0 (\<lambda>c. c = 58 \<or> is_space c)] @ region_tail)"

definition hash_regionEnd :: re where
  "hash_regionEnd = seq [Bol, Lit (js ''#''), ws0, Lit (js ''endregion'')]"

definition hash_sectionMarker :: re where
  "hash_sectionMarker = seq (Bol # Lit (js ''#'') # marker_tail)"

definition rust_regionStart :: re where
  "rust_regionStart = seq ([Bol, Lit (js ''//''), ws0, Lit (js ''region:''), ws0] @ region_tail)"

definition slash_regionEnd :: re where
  "slash_regionEnd = seq [Bol, Lit (js ''//''), ws0, Lit (js ''endregion'')]"

definition slash_sectionMarker :: re where
  "slash_sectionMarker = seq (Bol # Lit (js ''//'') # marker_tail)"

definition cs_regionStart :: re where
  "cs_regionStart = seq ([Bol, ws0, Lit (js ''#region''), ws1] @ region_tail)"

definition cs_regionEnd :: re where
  "cs_regionEnd = seq [Bol, ws0, Lit (js ''#endregion'')]"

definition java_regionStart :: re where
  "java_regionStart = seq ([Bol, Lit (js ''//''), ws0, Lit (js ''region''), ws0] @ region_tail)"

definition yaml_regionStart :: re where
  "yaml_regionStart = seq ([Bol, Lit (js ''#''), ws0, Lit (js ''region:''), ws0] @ region_tail)"

text \<open>\<open>/"__section__(\w+)__"/\<close>; the unit 34 is the double quote.\<close>

definition json_sectionMarker :: re where
  "json_sectionMarker = seq [Lit (34 # js ''__section__''), Grp 1 word1, Lit (js ''__'' @ [34])]"

text \<open>
  The \<open>autoPatterns\<close> of the command-line script, all under the \<open>m\<close> flag. The unit 40
  is \<open>(\<close>, 41 is \<open>)\<close>, 123 is the opening brace, 91 and 93 are the brackets.
\<close>

definition ap :: "re list \<Rightarrow> string \<Rightarrow> nat option \<Rightarrow> autoPattern" where
  "ap rs t p = \<lparr>pattern = seq rs, target = js t, priority = p\<rparr>"

definition verbs5 :: re where
  "verbs5 = Grp 1 (Alt (Lit (js ''get'')) (Alt (Lit (js ''post'')) (Alt (Lit (js ''put''))
     (Alt (Lit (js ''delete'')) (Lit (js ''patch''))))))"

definition ts_autoPatterns :: "autoPattern list" where
  "ts_autoPatterns = [
     ap [BolM, Lit (js ''import''), ws1] ''imports'' (Some 1),
     ap [BolM, Lit (js ''export''), ws1, Lit (js ''type''), ws1] ''types'' (Some 2),
     ap [BolM, Opt (seq [Lit (js ''export''), ws1]), Lit (js ''interface''), ws1, word1,
         Lit (js ''State'')] ''types/state'' (Some 3),
     ap [BolM, Opt (seq [Lit (js ''export''), ws1]), Lit (js ''interface''), ws1, word1,
         Lit (js ''Actions'')] ''types/actions'' (Some 3),
     ap [BolM, Opt (seq [Lit (js ''export''), ws1]), Lit (js ''interface''), ws1] ''types'' (Some 2),
     ap [BolM, Opt (seq [Lit (js ''export''), ws1]), Lit (js ''type''), ws1] ''types'' (Some 2),
     ap [BolM, Lit (js ''const''), ws1, Lit (js ''initial''), Rep Greedy 0 is_word, ws0,
         Cls (\<lambda>c. c = 61 \<or> c = 58)] ''state/initial'' (Some 4),
     ap [BolM, Lit (js ''export''), ws1, Lit (js ''const''), ws1, Lit (js ''use''), word1,
         Lit (js ''Store''), ws0, Lit (js ''='')] ''store'' (Some 5),
     ap [Lit (js ''create<''), Rep Greedy 0 is_dot, Lit (js ''>''), Lit [40], ws0, Opt (Lit [40])]
         ''store'' (Some 5),
     ap [BolM, Lit (js ''export''), ws1, Lit (js ''const''), ws1, Lit (js ''select''), word1]
         ''selectors'' (Some 8),
     ap [BolM, Lit (js ''export''), ws1, Lit (js ''function''), ws1, Lit (js ''use''), word1]
         ''hooks'' (Some 9)]"

definition python_autoPatterns :: "autoPattern list" where
  "python_autoPatterns = [
     ap [BolM, Alt (Lit (js ''from'')) (Lit (js ''import'')), ws1] ''imports'' (Some 1),
     ap [BolM, Lit (js ''class''), ws1, word1, ws0, Lit [40]] ''classes'' (Some 3),
     ap [BolM, Lit (js ''class''), ws1, word1, Lit (js ''Model''), ws0, Lit [40]] ''models'' (Some 2),
     ap [BolM, Lit (js ''@dataclass'')] ''dataclasses'' (Some 2),
     ap [BolM, Lit (js ''@app.''), verbs5] ''routes'' (Some 4),
     ap [BolM, Lit (js ''@router.''), verbs5] ''routes'' (Some 4),
     ap [BolM, Lit (js ''def''), ws1, Lit (js ''test_'')] ''tests'' (Some 5),
     ap [BolM, Lit (js ''async''), ws1, Lit (js ''def''), ws1] ''async'' (Some 3)]"

definition rust_autoPatterns :: "autoPattern list" where
  "rust_autoPatterns = [
     ap [BolM, Lit (js ''use''), ws1] ''imports'' (Some 1),
     ap [BolM, Lit (js ''mod''), ws1] ''modules'' (Some 2),
     ap [BolM, Lit (js ''pub''), ws1, Lit (js ''struct''), ws1] ''structs'' (Some 3),
     ap [BolM, Lit (js ''pub''), ws1, Lit (js ''enum''), ws1] ''enums'' (Some 3),
     ap [BolM, Lit (js ''impl''), ws1] ''impl'' (Some 4),
     ap [BolM, Lit (js ''pub''), ws1, Lit (js ''fn''), ws1] ''functions'' (Some 5),
     ap [BolM, Lit (js ''#'' @ [91] @ js ''test'' @ [93])] ''tests'' (Some 6)]"

definition go_autoPatterns :: "autoPattern list" where
  "go_autoPatterns = [
     ap [BolM, Lit (js ''import''), ws0, Lit [40]] ''imports'' (Some 1),
     ap [BolM, Lit (js ''type''), ws1, word1, ws1, Lit (js ''struct''), ws0, Lit [123]]
         ''types'' (Some 2),
     ap [BolM, Lit (js ''type''), ws1, word1, ws1, Lit (js ''interface''), ws0, Lit [123]]
         ''interfaces'' (Some 2),
     ap [BolM, Lit (js ''func''), ws1, Lit [40], word1, ws1, Opt (Lit (js ''*'')), word1, Lit [41]]
         ''methods'' (Some 3),
     ap [BolM, Lit (js ''func''), ws1, word1] ''functions'' (Some 4),
     ap [BolM, Lit (js ''func''), ws1, Lit (js ''Test''), word1] ''tests'' (Some 5)]"

definition csharp_autoPatterns :: "autoPattern list" where
  "csharp_autoPatterns = [
     ap [BolM, Lit (js ''using''), ws1] ''imports'' (Some 1),
     ap [BolM, Lit (js ''namespace''), ws1] ''namespace'' (Some 2),
     ap [BolM, Lit (js ''public''), ws1, Lit (js ''class''), ws1] ''classes'' (Some 3),
     ap [BolM, Lit (js ''public''), ws1, Lit (js ''interface''), ws1] ''interfaces'' (Some 3),
     ap [BolM, Lit (js ''public''), ws1, Lit (js ''enum''), ws1] ''enums'' (Some 3),
     ap [BolM, Lit ([91] @ js ''Test'' @ [93])] ''tests'' (Some 5)]"

definition java_autoPatterns :: "autoPattern list" where
  "java_autoPatterns = [
     ap [BolM, Lit (js ''import''), ws1] ''imports'' (Some 1),
     ap [BolM, Lit (js ''package''), ws1] ''package'' (Some 0),
     ap [BolM, Lit (js ''public''), ws1, Lit (js ''class''), ws1] ''classes'' (Some 2),
     ap [BolM, Lit (js ''public''), ws1, Lit (js ''interface''), ws1] ''interfaces'' (Some 2),
     ap [BolM, Lit (js ''public''), ws1, Lit (js ''enum''), ws1] ''enums'' (Some 2),
     ap [BolM, Lit (js ''@Test'')] ''tests'' (Some 5)]"

definition json_autoPatterns :: "autoPattern list" where
  "json_autoPatterns = [
     ap [Lit (34 # js ''nodes'' @ [34]), ws0, Lit (js '':''), ws0, Lit [123]] ''nodes'' None,
     ap [Lit (34 # js ''edges'' @ [34]), ws0, Lit (js '':''), ws0, Lit [123]] ''edges'' None,
     ap [Lit (34 # js ''config'' @ [34]), ws0, Lit (js '':''), ws0, Lit [123]] ''config'' None]"

definition LANGUAGE_PLUGINS :: "plugin list" where
  "LANGUAGE_PLUGINS = [
     \<lparr>pname = js ''ts'',
      extensions = [js ''.ts'', js ''.tsx'', js ''.js'', js ''.jsx'', js ''.mjs'', js ''.cjs''],
      regionStart = Some ts_regionStart, regionEnd = Some ts_regionEnd,
      sectionMarker = Some ts_sectionMarker, autoPatterns = ts_autoPatterns\<rparr>,
     \<lparr>pname = js ''python'', extensions = [js ''.py'', js ''.pyw'', js ''.pyi''],
      regionStart = Some py_regionStart, regionEnd = Some hash_regionEnd,
      sectionMarker = Some hash_sectionMarker, autoPatterns = python_autoPatterns\<rparr>,
     \<lparr>pname = js ''rust'', extensions = [js ''.rs''],
      regionStart = Some rust_regionStart, regionEnd = Some slash_regionEnd,
      sectionMarker = Some slash_sectionMarker, autoPatterns = rust_autoPatterns\<rparr>,
     \<lparr>pname = js ''go'', extensions = [js ''.go''],
      regionStart = Some rust_regionStart, regionEnd = Some slash_regionEnd,
      sectionMarker = Some slash_sectionMarker, autoPatterns = go_autoPatterns\<rparr>,
     \<lparr>pname = js ''csharp'', extensions = [js ''.cs''],
      regionStart = Some cs_regionStart, regionEnd = Some cs_regionEnd,
      sectionMarker = Some ts_sectionMarker, autoPatterns = csharp_autoPatterns\<rparr>,
     \<lparr>pname = js ''java'', extensions = [js ''.java''],
      regionStart = Some java_regionStart, regionEnd = Some slash_regionEnd,
      sectionMarker = Some ts_sectionMarker, autoPatterns = java_autoPatterns\<rparr>,
     \<lparr>pname = js ''yaml'', extensions = [js ''.yaml'', js ''.yml''],
      regionStart = Some yaml_regionStart, regionEnd = Some hash_regionEnd,
      sectionMarker = Some hash_sectionMarker, autoPatterns = []\<rparr>,
     \<lparr>pname = js ''json'', extensions = [js ''.json'', js ''.json5'', js ''.jsonc''],
      regionStart = None, regionEnd = None,
      sectionMarker = Some json_sectionMarker, autoPatterns = json_autoPatterns\<rparr>]"

text \<open>
  \<open>getLanguagePlugin\<close>. The functions \<open>extname\<close> of the path module and \<open>toLowerCase\<close>
  belong to the platform; the model takes their result \<open>ext\<close>, the lower-cased extension
  of the file path.
\<close>

definition getLanguagePlugin :: "jstring \<Rightarrow> plugin option" where
  "getLanguagePlugin ext = find (\<lambda>p. ext \<in> set (extensions p)) LANGUAGE_PLUGINS"

section \<open>The explicit scanner of the library and of the script\<close>

text \<open>
  \<open>findSections\<close> of \<open>src/index.mjs\<close>; \<open>findExplicitSections\<close> of the script is the same
  function. The three variables \<open>currentSection\<close>, \<open>currentDesc\<close> and \<open>sectionStart\<close>
  are assigned together, so the loop state holds them as one optional triple (\<open>None\<close>
  when they are \<open>null\<close>). The test \<open>if (currentSection)\<close> is false for \<open>null\<close> and for the
  empty string. A pattern that is \<open>null\<close> in the plugin, or a \<open>null\<close> plugin, falls back to
  the TypeScript pattern. Group 1 takes part in every match of the patterns of the table.
\<close>

definition group :: "caps \<Rightarrow> nat \<Rightarrow> jstring" where
  "group c i = (case c i of Some g \<Rightarrow> g | None \<Rightarrow> [])"

type_synonym opened = "(jstring \<times> jstring \<times> int) option"

definition is_open :: "opened \<Rightarrow> bool" where
  "is_open cur = (case cur of None \<Rightarrow> False | Some (n, d, st) \<Rightarrow> n \<noteq> [])"

definition close_at :: "opened \<Rightarrow> int \<Rightarrow> Section list" where
  "close_at cur e =
     (case cur of
        None \<Rightarrow> []
      | Some (n, d, st) \<Rightarrow>
          if n \<noteq> [] then [\<lparr>name = n, line = st, endLine = e, desc = d\<rparr>] else [])"

definition fs_step :: "re \<Rightarrow> re \<Rightarrow> re \<Rightarrow> int \<Rightarrow> jstring \<Rightarrow> Section list \<times> opened
    \<Rightarrow> Section list \<times> opened" where
  "fs_step rs re sm lineNum l st =
     (case search rs l of
        Some (i, mt, c) \<Rightarrow>
          (fst st @ close_at (snd st) (lineNum - 1),
           Some (trim (group c 1), trim (group c 2), lineNum))
      | None \<Rightarrow>
          if test re l
          then (if is_open (snd st) then (fst st @ close_at (snd st) lineNum, None) else st)
          else (case search sm l of
                  Some (i, mt, c) \<Rightarrow>
                    (fst st @ close_at (snd st) (lineNum - 1),
                     Some (trim (group c 1), [], lineNum))
                | None \<Rightarrow> st))"

fun fs_loop :: "re \<Rightarrow> re \<Rightarrow> re \<Rightarrow> int \<Rightarrow> jstring list \<Rightarrow> Section list \<times> opened
    \<Rightarrow> Section list \<times> opened" where
  "fs_loop rs re sm lineNum [] st = st"
| "fs_loop rs re sm lineNum (l # ls) st =
     fs_loop rs re sm (lineNum + 1) ls (fs_step rs re sm lineNum l st)"

definition pattern_or :: "plugin option \<Rightarrow> (plugin \<Rightarrow> re option) \<Rightarrow> re \<Rightarrow> re" where
  "pattern_or pl f d = (case pl of None \<Rightarrow> d | Some p \<Rightarrow> (case f p of None \<Rightarrow> d | Some r \<Rightarrow> r))"

definition findSections :: "jstring \<Rightarrow> plugin option \<Rightarrow> Section list" where
  "findSections content pl =
     (let lines = split_nl content;
          st = fs_loop (pattern_or pl regionStart ts_regionStart)
                 (pattern_or pl regionEnd ts_regionEnd)
                 (pattern_or pl sectionMarker ts_sectionMarker) 1 lines ([], None)
      in fst st @ close_at (snd st) (int (length lines)))"

section \<open>The scanners of the server\<close>

text \<open>
  \<open>src/mcp-server.mjs\<close>. Its sections carry a \<open>size\<close>. An entry of \<open>LANGUAGE_CONFIG\<close>
  (the fields \<open>commentStart\<close>, \<open>blockStart\<close>, \<open>blockEnd\<close> are read nowhere and left out):
\<close>

record MSection = Section +
  size :: int

record langConfig =
  lang :: jstring
  cfg_extensions :: "jstring list"
  cfg_regionStart :: "re option"
  cfg_regionEnd :: "re option"

record autoRule =
  regex :: re
  rname :: jstring
  rdesc :: jstring

definition line_start :: "re list" where
  "line_start = [Grp 1 (Rep Lazy 1 is_dot), Eol]"

definition LANGUAGE_CONFIG :: "langConfig list" where
  "LANGUAGE_CONFIG = [
     \<lparr>lang = js ''ts'',
      cfg_extensions = [js ''.ts'', js ''.tsx'', js ''.js'', js ''.jsx'', js ''.mjs'', js ''.cjs''],
      cfg_regionStart = Some ts_regionStart, cfg_regionEnd = Some ts_regionEnd\<rparr>,
     \<lparr>lang = js ''python'', cfg_extensions = [js ''.py'', js ''.pyw'', js ''.pyi''],
      cfg_regionStart = Some py_regionStart, cfg_regionEnd = Some hash_regionEnd\<rparr>,
     \<lparr>lang = js ''rust'', cfg_extensions = [js ''.rs''],
      cfg_regionStart = Some rust_regionStart, cfg_regionEnd = Some slash_regionEnd\<rparr>,
     \<lparr>lang = js ''go'', cfg_extensions = [js ''.go''],
      cfg_regionStart = Some rust_regionStart, cfg_regionEnd = Some slash_regionEnd\<rparr>,
     \<lparr>lang = js ''csharp'', cfg_extensions = [js ''.cs''],
      cfg_regionStart = Some (seq ([Bol, ws0, Lit (js ''#region''), ws1] @ line_start)),
      cfg_regionEnd = Some cs_regionEnd\<rparr>,
     \<lparr>lang = js ''java'', cfg_extensions = [js ''.java'', js ''.kt'', js ''.scala''],
      cfg_regionStart = Some (seq ([Bol, Lit (js ''//''), ws0, Lit (js ''region''), ws0] @ line_start)),
      cfg_regionEnd = Some slash_regionEnd\<rparr>,
     \<lparr>lang = js ''yaml'', cfg_extensions = [js ''.yaml'', js ''.yml''],
      cfg_regionStart = Some (seq ([Bol, Lit (js ''#''), ws0, Lit (js ''region:''), ws0] @ line_start)),
      cfg_regionEnd = Some hash_regionEnd\<rparr>]"

definition detectLanguage :: "jstring \<Rightarrow> langConfig option" where
  "detectLanguage ext = find (\<lambda>p. ext \<in> set (cfg_extensions p)) LANGUAGE_CONFIG"

definition rule :: "re list \<Rightarrow> string \<Rightarrow> string \<Rightarrow> autoRule" where
  "rule rs n d = \<lparr>regex = seq rs, rname = js n, rdesc = js d\<rparr>"

definition verbs4 :: re where
  "verbs4 = Grp 2 (Alt (Lit (js ''get'')) (Alt (Lit (js ''post'')) (Alt (Lit (js ''put''))
     (Lit (js ''delete'')))))"

text \<open>The table \<open>patterns\<close> of \<open>detectSectionsAuto\<close>, by language name.\<close>

definition patterns :: "(jstring \<times> autoRule list) list" where
  "patterns = [
    (js ''ts'', [
      rule [Bol, Lit (js ''import''), ws1] ''imports'' ''Import statements'',
      rule [Bol, Lit (js ''export''), ws1, Grp 1 (Alt (Lit (js ''interface'')) (Lit (js ''type''))),
            ws1, Grp 2 word1] ''types'' ''Type definitions'',
      rule [Bol, Lit (js ''export''), ws1, Lit (js ''const''), ws1, Lit (js ''use''), word1]
            ''hooks'' ''React hooks'',
      rule [Bol, Lit (js ''export''), ws1, Opt (Grp 1 (seq [Lit (js ''async''), ws1])),
            Lit (js ''function''), ws1, Grp 2 word1] ''functions'' ''Exported functions'',
      rule [Bol, Opt (Grp 1 (seq [Lit (js ''export''), ws1])), Lit (js ''class''), ws1, Grp 2 word1]
            ''classes'' ''Class definitions'']),
    (js ''python'', [
      rule [Bol, Grp 1 (Alt (Lit (js ''from'')) (Lit (js ''import''))), ws1]
            ''imports'' ''Import statements'',
      rule [Bol, Lit (js ''class''), ws1, Grp 1 word1] ''classes'' ''Class definitions'',
      rule [Bol, Opt (Grp 1 (seq [Lit (js ''async''), ws1])), Lit (js ''def''), ws1, Grp 2 word1]
            ''functions'' ''Function definitions'',
      rule [Bol, Lit (js ''@''), Grp 1 (Alt (Lit (js ''app'')) (Lit (js ''router''))), Lit (js ''.''),
            verbs4] ''routes'' ''API routes'']),
    (js ''rust'', [
      rule [Bol, Lit (js ''use''), ws1] ''imports'' ''Use statements'',
      rule [Bol, Opt (Grp 1 (seq [Lit (js ''pub''), ws1])), Lit (js ''struct''), ws1, Grp 2 word1]
            ''structs'' ''Struct definitions'',
      rule [Bol, Opt (Grp 1 (seq [Lit (js ''pub''), ws1])), Lit (js ''enum''), ws1, Grp 2 word1]
            ''enums'' ''Enum definitions'',
      rule [Bol, Lit (js ''impl''), ws1] ''impl'' ''Implementations'',
      rule [Bol, Opt (Grp 1 (seq [Lit (js ''pub''), ws1])), Opt (Grp 2 (seq [Lit (js ''async''), ws1])),
            Lit (js ''fn''), ws1, Grp 3 word1] ''functions'' ''Functions'']),
    (js ''go'', [
      rule [Bol, Lit (js ''import''), ws0, Lit [40]] ''imports'' ''Import block'',
      rule [Bol, Lit (js ''type''), ws1, Grp 1 word1, ws1, Lit (js ''struct'')]
            ''types'' ''Struct types'',
      rule [Bol, Lit (js ''type''), ws1, Grp 1 word1, ws1, Lit (js ''interface'')]
            ''interfaces'' ''Interface types'',
      rule [Bol, Lit (js ''func''), ws1, Lit [40]] ''methods'' ''Methods'',
      rule [Bol, Lit (js ''func''), ws1, Grp 1 word1] ''functions'' ''Functions''])]"

text \<open>
  \<open>detectSectionsAuto\<close> of the server. \<open>currentSection\<close> is an object or \<open>null\<close>; an
  object that was pushed is not written again, since the variable is assigned a new
  object right after. The index \<open>i\<close> counts from 0.
\<close>

definition set_end :: "MSection \<Rightarrow> int \<Rightarrow> MSection" where
  "set_end cs e = cs\<lparr>endLine := e, size := e - line cs + 1\<rparr>"

definition auto_step :: "autoRule list \<Rightarrow> int \<Rightarrow> jstring \<Rightarrow> MSection list \<times> MSection option
    \<Rightarrow> MSection list \<times> MSection option" where
  "auto_step rules i l st =
     (case find (\<lambda>r. test (regex r) l) rules of
        None \<Rightarrow> st
      | Some r \<Rightarrow>
          (case snd st of
             None \<Rightarrow>
               (fst st, Some \<lparr>name = rname r, line = i + 1, endLine = i + 1, desc = rdesc r, size = 1\<rparr>)
           | Some cs \<Rightarrow>
               if name cs \<noteq> rname r
               then (fst st @ [set_end cs i],
                     Some \<lparr>name = rname r, line = i + 1, endLine = i + 1, desc = rdesc r, size = 1\<rparr>)
               else (fst st, Some (set_end cs (i + 1)))))"

fun auto_loop :: "autoRule list \<Rightarrow> int \<Rightarrow> jstring list \<Rightarrow> MSection list \<times> MSection option
    \<Rightarrow> MSection list \<times> MSection option" where
  "auto_loop rules i [] st = st"
| "auto_loop rules i (l # ls) st = auto_loop rules (i + 1) ls (auto_step rules i l st)"

definition langPatterns :: "langConfig option \<Rightarrow> autoRule list" where
  "langPatterns cfg =
     (case cfg of
        None \<Rightarrow> []
      | Some c \<Rightarrow> (case map_of patterns (lang c) of None \<Rightarrow> [] | Some rs \<Rightarrow> rs))"

definition mcp_detectSectionsAuto :: "jstring list \<Rightarrow> langConfig option \<Rightarrow> MSection list" where
  "mcp_detectSectionsAuto lines cfg =
     (let st = auto_loop (langPatterns cfg) 0 lines ([], None)
      in fst st @ (case snd st of None \<Rightarrow> [] | Some cs \<Rightarrow> [cs]))"

text \<open>\<open>detectSectionsExplicit\<close> of the server.\<close>

definition ex_step :: "langConfig option \<Rightarrow> int \<Rightarrow> jstring \<Rightarrow> MSection list \<times> MSection option
    \<Rightarrow> MSection list \<times> MSection option" where
  "ex_step cfg lineNum l st =
     (case (case cfg of None \<Rightarrow> None
            | Some c \<Rightarrow> (case cfg_regionStart c of None \<Rightarrow> None | Some r \<Rightarrow> search r l)) of
        Some (i, mt, c) \<Rightarrow>
          (fst st @ (case snd st of None \<Rightarrow> [] | Some cs \<Rightarrow> [set_end cs (lineNum - 1)]),
           Some \<lparr>name = trim (group c 1), line = lineNum, endLine = lineNum,
                 desc = trim (group c 2), size = 1\<rparr>)
      | None \<Rightarrow>
          if (case cfg of None \<Rightarrow> False
              | Some c \<Rightarrow> (case cfg_regionEnd c of None \<Rightarrow> False | Some r \<Rightarrow> test r l))
          then (case snd st of None \<Rightarrow> st | Some cs \<Rightarrow> (fst st @ [set_end cs lineNum], None))
          else st)"

fun ex_loop :: "langConfig option \<Rightarrow> int \<Rightarrow> jstring list \<Rightarrow> MSection list \<times> MSection option
    \<Rightarrow> MSection list \<times> MSection option" where
  "ex_loop cfg lineNum [] st = st"
| "ex_loop cfg lineNum (l # ls) st = ex_loop cfg (lineNum + 1) ls (ex_step cfg lineNum l st)"

definition detectSectionsExplicit :: "jstring list \<Rightarrow> langConfig option \<Rightarrow> MSection list" where
  "detectSectionsExplicit lines cfg =
     (let st = ex_loop cfg 1 lines ([], None)
      in fst st @ (case snd st of None \<Rightarrow> [] | Some cs \<Rightarrow> [set_end cs (int (length lines))]))"

text \<open>
  A file as the program sees it: the path, the results \<open>base\<close> of \<open>basename\<close> and \<open>ext\<close>
  of \<open>extname(...).toLowerCase()\<close> on it, and the content that \<open>readFile\<close> returns.
\<close>

record File =
  path :: jstring
  base :: jstring
  ext :: jstring
  content :: jstring

record FileIndex =
  fname :: jstring
  ipath :: jstring
  language :: jstring
  totalLines :: int
  sections :: "MSection list"

text \<open>
  \<open>generateIndex\<close> of the server. The trace records which scanners ran, in order, so that
  the control flow can be stated.
\<close>

datatype scanner = Explicit | Auto

definition mcp_resolve :: "jstring list \<Rightarrow> langConfig option \<Rightarrow> MSection list \<times> scanner list" where
  "mcp_resolve lines cfg =
     (let s1 = detectSectionsExplicit lines cfg;
          (s2, tr) = (if s1 = [] then (mcp_detectSectionsAuto lines cfg, [Explicit, Auto])
                      else (s1, [Explicit]));
          s3 = (if s2 = []
                then [\<lparr>name = js ''main'', line = 1, endLine = int (length lines),
                       desc = js ''Main content'', size = int (length lines)\<rparr>]
                else s2)
      in (s3, tr))"

definition mcp_generateIndex :: "File \<Rightarrow> FileIndex" where
  "mcp_generateIndex f =
     (let lines = split_nl (content f);
          cfg = detectLanguage (ext f)
      in \<lparr>fname = base f, ipath = path f,
          language = (case cfg of None \<Rightarrow> js ''unknown'' | Some c \<Rightarrow> lang c),
          totalLines = int (length lines),
          sections = fst (mcp_resolve lines cfg)\<rparr>)"


definition slice :: "'a list \<Rightarrow> int \<Rightarrow> int \<Rightarrow> 'a list" where
  "slice xs a b =
     (let n = int (length xs);
          a' = (if a < 0 then max (n + a) 0 else min a n);
          b' = (if b < 0 then max (n + b) 0 else min b n)
      in take (nat (b' - a')) (drop (nat a') xs))"


section \<open>The index block codec\<close>

text \<open>
  \<open>parseIndex\<close> of the library; \<open>parseExistingIndex\<close> of the script is the same function.
  The block pattern is \<open>/\/\*\*\s*\n\s*\*\s*@ai-index[\s\S]*?\*\//\<close>, the row pattern
  \<open>/\|\s*([^\|]+?)\s*\|\s*(\d+)\s*\|\s*(\d+)\s*\|(?:\s*(\d+)\s*\|)?(?:\s*([^\|]*?)\s*\|)?/g\<close>
  (the unit 124 is the bar).
\<close>

definition block_re :: re where
  "block_re = seq [Lit (js ''/**''), ws0, Lit [10], ws0, Lit (js ''*''), ws0, Lit (js ''@ai-index''),
     Rep Lazy 0 (\<lambda>c. True), Lit (js ''*/'')]"

definition row_re :: re where
  "row_re = seq [Lit [124], ws0, Grp 1 (Rep Lazy 1 (\<lambda>c. c \<noteq> 124)), ws0, Lit [124],
     ws0, Grp 2 (Rep Greedy 1 is_digit), ws0, Lit [124],
     ws0, Grp 3 (Rep Greedy 1 is_digit), ws0, Lit [124],
     Opt (seq [ws0, Grp 4 (Rep Greedy 1 is_digit), ws0, Lit [124]]),
     Opt (seq [ws0, Grp 5 (Rep Lazy 0 (\<lambda>c. c \<noteq> 124)), ws0, Lit [124]])]"

text \<open>
  \<open>matchAll\<close> with a global pattern: the search resumes where the last match ended, one
  unit further when the match was empty. The result lists the captures of each match.
\<close>

function matchAll_from :: "re \<Rightarrow> nat option \<Rightarrow> jstring \<Rightarrow> caps list" where
  "matchAll_from r p s =
     (case search_from r 0 p s of
        None \<Rightarrow> []
      | Some (i, mt, c) \<Rightarrow>
          c # (if mt = []
               then (if i < length s then matchAll_from r (Some (s ! i)) (drop (i + 1) s) else [])
               else matchAll_from r (Some (last mt)) (drop (i + length mt) s)))"
  by pat_completeness auto
termination
proof (relation "measure (\<lambda>(r, p, s). length s)", goal_cases)
  case 1
  show ?case by simp
next
  case (2 r p s x2 i x2a mt c)
  then show ?case by simp
next
  case (3 r p s x2 i x2a mt c)
  then have "s \<noteq> []" by (cases s) (auto split: option.splits)
  with 3 show ?case by (cases mt) auto
qed

declare matchAll_from.simps [simp del]

definition matchAll :: "re \<Rightarrow> jstring \<Rightarrow> caps list" where
  "matchAll r s = matchAll_from r None s"

text \<open>
  An object used as a dictionary is an association list in insertion order; writing an
  existing key keeps its place. A read of a key that is not an own property finds the
  members of \<open>Object.prototype\<close>. (Writing the key \<open>__proto__\<close> replaces the prototype
  instead of storing a property; the model does not follow this and the theorems on
  stored names leave that key out.)
\<close>

fun obj_set :: "(jstring \<times> 'v) list \<Rightarrow> jstring \<Rightarrow> 'v \<Rightarrow> (jstring \<times> 'v) list" where
  "obj_set [] k v = [(k, v)]"
| "obj_set ((k', v') # kvs) k v = (if k' = k then (k, v) # kvs else (k', v') # obj_set kvs k v)"

definition proto_names :: "jstring list" where
  "proto_names = [js ''constructor'', js ''__defineGetter__'', js ''__defineSetter__'',
     js ''hasOwnProperty'', js ''__lookupGetter__'', js ''__lookupSetter__'', js ''isPrototypeOf'',
     js ''propertyIsEnumerable'', js ''toString'', js ''valueOf'', js ''__proto__'',
     js ''toLocaleString'']"

datatype 'v lookup = Own 'v | Inherited | Absent

definition obj_get :: "(jstring \<times> 'v) list \<Rightarrow> jstring \<Rightarrow> 'v lookup" where
  "obj_get kvs k =
     (case map_of kvs k of
        Some v \<Rightarrow> Own v
      | None \<Rightarrow> if k \<in> set proto_names then Inherited else Absent)"

record Stored =
  s_line :: jsnum
  s_end :: jsnum
  s_size :: jsnum
  s_desc :: jstring

record ParsedIndex =
  raw :: jstring
  psections :: "(jstring \<times> Stored) list"
  startIndex :: nat
  endIndex :: nat

definition parse_row :: "caps \<Rightarrow> (jstring \<times> Stored) list \<Rightarrow> (jstring \<times> Stored) list" where
  "parse_row c secs =
     (let nm = group c 1 in
      if nm \<noteq> [] \<and> \<not> str_includes nm (js ''Section'') \<and> \<not> str_includes nm (js ''---'')
      then obj_set secs (trim nm)
             \<lparr>s_line = parseInt (group c 2), s_end = parseInt (group c 3),
              s_size = (if group c 4 \<noteq> [] then parseInt (group c 4)
                        else num_sub (parseInt (group c 3)) (parseInt (group c 2))),
              s_desc = trim (group c 5)\<rparr>
      else secs)"

definition parseIndex :: "jstring \<Rightarrow> ParsedIndex option" where
  "parseIndex cont =
     (case search block_re cont of
        None \<Rightarrow> None
      | Some (i, indexBlock, c) \<Rightarrow>
          Some \<lparr>raw = indexBlock,
                psections = foldl (\<lambda>secs row. parse_row row secs) [] (matchAll row_re indexBlock),
                startIndex = i, endIndex = i + length indexBlock\<rparr>)"

text \<open>
  \<open>generateIndex\<close> of the library; \<open>generateIndexBlock\<close> of the script is the same function.
  \<open>now\<close> is the string that \<open>new Date().toISOString()\<close> returns.
\<close>

definition maxLen :: "jstring list \<Rightarrow> nat" where
  "maxLen xs = foldr max (map length xs) 20"

definition table_row :: "nat \<Rightarrow> nat \<Rightarrow> Section \<Rightarrow> jstring" where
  "table_row maxNameLen maxDescLen s =
     js '' * | '' @ padEnd (name s) maxNameLen @ js '' | '' @ padStart (String_int (line s)) 4
     @ js '' | '' @ padStart (String_int (endLine s)) 4
     @ js '' | '' @ padStart (String_int (endLine s - line s + 1)) 4
     @ js '' | '' @ padEnd (desc s) maxDescLen @ js '' |'' @ [10]"

definition table_head :: "nat \<Rightarrow> nat \<Rightarrow> jstring" where
  "table_head maxNameLen maxDescLen =
     js '' * | '' @ padEnd (js ''Section'') maxNameLen @ js '' | Line | End  | Size | ''
     @ padEnd (js ''Description'') maxDescLen @ js '' |'' @ [10]
     @ js '' * | '' @ replicate maxNameLen 45 @ js '' | ---- | ---- | ---- | ''
     @ replicate maxDescLen 45 @ js '' |'' @ [10]"

definition generateIndex :: "jstring \<Rightarrow> Section list \<Rightarrow> int \<Rightarrow> jstring" where
  "generateIndex now secs totalLn =
     (let maxNameLen = maxLen (map name secs);
          maxDescLen = maxLen (map desc secs);
          table = table_head maxNameLen maxDescLen
                  @ concat (map (table_row maxNameLen maxDescLen) secs)
      in js ''/**'' @ [10] @ js '' * @ai-index'' @ [10] @ js '' * @generated '' @ now @ [10]
         @ js '' * @total-lines '' @ String_int totalLn @ [10] @ js '' *'' @ [10] @ table
         @ js '' */'')"

text \<open>
  \<open>insertIndex\<close> of the script; the library's \<open>indexFile\<close> has the same code inline. The
  shebang pattern is \<open>/^#!.*\n/\<close>.
\<close>

definition shebang_re :: re where
  "shebang_re = seq [Bol, Lit (js ''#!''), Rep Greedy 0 is_dot, Lit [10]]"

definition insertIndex :: "jstring \<Rightarrow> jstring \<Rightarrow> ParsedIndex option \<Rightarrow> jstring" where
  "insertIndex cont indexBlock existingIndex =
     (case existingIndex of
        Some ex \<Rightarrow>
          slice cont 0 (int (startIndex ex)) @ indexBlock
          @ slice cont (int (endIndex ex)) (int (length cont))
      | None \<Rightarrow>
          (case search shebang_re cont of
             Some (i, sb, c) \<Rightarrow>
               sb @ indexBlock @ [10, 10] @ slice cont (int (length sb)) (int (length cont))
           | None \<Rightarrow> indexBlock @ [10, 10] @ cont))"

section \<open>Indexing a file\<close>

text \<open>
  \<open>indexFile\<close> of the library. An exception is the left summand; the right summand has
  the content that \<open>writeFile\<close> stores, the result object, and the sections and the trace
  of scanners that led to it.
\<close>

datatype error = Error jstring | TypeError

record IndexResult =
  written :: jstring
  count :: nat
  lineCount :: int
  action :: jstring
  resolved :: "Section list"
  trace :: "scanner list"

definition main_section :: "int \<Rightarrow> Section" where
  "main_section totalLn =
     \<lparr>name = js ''main'', line = 1, endLine = totalLn, desc = js ''Main content''\<rparr>"

definition lib_indexFile :: "jstring \<Rightarrow> File \<Rightarrow> error + IndexResult" where
  "lib_indexFile now f =
     (case getLanguagePlugin (ext f) of
        None \<Rightarrow> Inl (Error (js ''Unsupported file type: '' @ path f))
      | Some pl \<Rightarrow>
          let totalLn = int (length (split_nl (content f)));
              existingIndex = parseIndex (content f);
              s1 = findSections (content f) (Some pl);
              secs = (if s1 = [] then [main_section totalLn] else s1);
              indexBlock = generateIndex now secs totalLn
          in Inr \<lparr>written = insertIndex (content f) indexBlock existingIndex,
                   count = length secs, lineCount = totalLn,
                   action = (if existingIndex \<noteq> None then js ''updated'' else js ''added''),
                   resolved = secs, trace = [Explicit]\<rparr>)"

text \<open>
  \<open>detectSectionsAuto\<close> of the script: a first loop lists the lines on which a pattern
  matches (the first pattern in list order), a second loop groups them. The variables
  \<open>currentSection\<close> and \<open>sectionStart\<close> are assigned together and form one optional pair;
  \<open>if (currentSection)\<close> is false for \<open>null\<close> and for the empty string.
\<close>

definition detect_line :: "autoPattern list \<Rightarrow> int \<Rightarrow> jstring \<Rightarrow> (jstring \<times> int \<times> nat) list" where
  "detect_line pats lineNum l =
     (case find (\<lambda>a. test (pattern a) l) pats of
        None \<Rightarrow> []
      | Some a \<Rightarrow>
          [(target a, lineNum,
            (case priority a of None \<Rightarrow> 5 | Some pr \<Rightarrow> if pr = 0 then 5 else pr))])"

fun detect_loop :: "autoPattern list \<Rightarrow> int \<Rightarrow> jstring list \<Rightarrow> (jstring \<times> int \<times> nat) list" where
  "detect_loop pats lineNum [] = []"
| "detect_loop pats lineNum (l # ls) = detect_line pats lineNum l @ detect_loop pats (lineNum + 1) ls"

definition group_step :: "(jstring \<times> int \<times> nat) list \<Rightarrow> int
    \<Rightarrow> Section list \<times> (jstring \<times> int) option \<Rightarrow> Section list \<times> (jstring \<times> int) option" where
  "group_step detected lineNum st =
     (case find (\<lambda>d. fst (snd d) = lineNum) detected of
        None \<Rightarrow> st
      | Some d \<Rightarrow>
          (case snd st of
             None \<Rightarrow> (fst st, Some (fst d, lineNum))
           | Some (n, start) \<Rightarrow>
               if n \<noteq> fst d
               then (fst st @ (if n \<noteq> []
                               then [\<lparr>name = n, line = start, endLine = lineNum - 1, desc = []\<rparr>]
                               else []),
                     Some (fst d, lineNum))
               else st))"

fun group_loop :: "(jstring \<times> int \<times> nat) list \<Rightarrow> int \<Rightarrow> nat
    \<Rightarrow> Section list \<times> (jstring \<times> int) option \<Rightarrow> Section list \<times> (jstring \<times> int) option" where
  "group_loop detected lineNum 0 st = st"
| "group_loop detected lineNum (Suc n) st =
     group_loop detected (lineNum + 1) n (group_step detected lineNum st)"

definition cli_detectSectionsAuto :: "jstring \<Rightarrow> plugin option \<Rightarrow> Section list" where
  "cli_detectSectionsAuto cont pl =
     (let lines = split_nl cont;
          pats = (case pl of None \<Rightarrow> [] | Some p \<Rightarrow> autoPatterns p);
          detected = detect_loop pats 1 lines;
          st = group_loop detected 1 (length lines) ([], None)
      in fst st @ (case snd st of
                     None \<Rightarrow> []
                   | Some (n, start) \<Rightarrow>
                       if n \<noteq> []
                       then [\<lparr>name = n, line = start, endLine = int (length lines), desc = []\<rparr>]
                       else []))"

text \<open>
  \<open>indexFile\<close> of the script. A section without a description gets one from \<open>descMap\<close>;
  when its name is a member of \<open>Object.prototype\<close> the value read is not a string and the
  call of \<open>padEnd\<close> on it raises a TypeError.
\<close>

definition descMap :: "(jstring \<times> jstring) list" where
  "descMap = map (\<lambda>(k, v). (js k, js v)) [
     (''imports'', ''External dependencies''), (''types'', ''Type definitions''),
     (''config'', ''Configuration''), (''main'', ''Main content''), (''tests'', ''Unit tests''),
     (''types/state'', ''State interface''), (''types/actions'', ''Action interfaces''),
     (''state/initial'', ''Initial state''), (''store'', ''State store''),
     (''selectors'', ''State selectors''), (''hooks'', ''React hooks''),
     (''debug'', ''Debug utilities''), (''classes'', ''Class definitions''),
     (''models'', ''Data models''), (''dataclasses'', ''Dataclass definitions''),
     (''routes'', ''API routes''), (''async'', ''Async functions''),
     (''modules'', ''Module declarations''), (''structs'', ''Struct definitions''),
     (''enums'', ''Enum definitions''), (''impl'', ''Implementations''),
     (''functions'', ''Function definitions''), (''interfaces'', ''Interface definitions''),
     (''methods'', ''Method definitions''), (''namespace'', ''Namespace declaration''),
     (''package'', ''Package declaration'')]"

definition describe :: "Section \<Rightarrow> error + Section" where
  "describe s =
     (if desc s \<noteq> [] then Inr s
      else (case obj_get descMap (name s) of
              Own d \<Rightarrow> Inr (s\<lparr>desc := d\<rparr>)
            | Absent \<Rightarrow> Inr s
            | Inherited \<Rightarrow> Inl TypeError))"

fun describe_all :: "Section list \<Rightarrow> error + Section list" where
  "describe_all [] = Inr []"
| "describe_all (s # ss) =
     (case describe s of
        Inl e \<Rightarrow> Inl e
      | Inr s' \<Rightarrow> (case describe_all ss of Inl e \<Rightarrow> Inl e | Inr ss' \<Rightarrow> Inr (s' # ss')))"

datatype skip = BelowThreshold | Unsupported

datatype outcome = Skipped skip | Success IndexResult

definition cli_resolve :: "jstring \<Rightarrow> plugin \<Rightarrow> Section list \<times> scanner list" where
  "cli_resolve cont pl =
     (let s1 = findSections cont (Some pl);
          (s2, tr) = (if s1 = [] then (cli_detectSectionsAuto cont (Some pl), [Explicit, Auto])
                      else (s1, [Explicit]));
          s3 = (if s2 = [] then [main_section (int (length (split_nl cont)))] else s2)
      in (s3, tr))"

definition cli_indexFile :: "jstring \<Rightarrow> int \<Rightarrow> File \<Rightarrow> error + outcome" where
  "cli_indexFile now minLines f =
     (let totalLn = int (length (split_nl (content f))) in
      if minLines \<noteq> 0 \<and> totalLn < minLines then Inr (Skipped BelowThreshold)
      else (case getLanguagePlugin (ext f) of
              None \<Rightarrow> Inr (Skipped Unsupported)
            | Some pl \<Rightarrow>
                let existingIndex = parseIndex (content f);
                    (s3, tr) = cli_resolve (content f) pl
                in case describe_all s3 of
                     Inl e \<Rightarrow> Inl e
                   | Inr secs \<Rightarrow>
                       Inr (Success \<lparr>written =
                              insertIndex (content f) (generateIndex now secs totalLn) existingIndex,
                            count = length secs, lineCount = totalLn,
                            action = (if existingIndex \<noteq> None then js ''Updated'' else js ''Added''),
                            resolved = secs, trace = tr\<rparr>)))"








section \<open>Properties of section lists\<close>








section \<open>Notions used in the proofs\<close>

text \<open>
  The ranges of a section list with the invariant every scanning loop keeps: the sections
  emitted so far lie in the lines already read, one after the other, and an open section
  starts after them.
\<close>

definition ranges_ok :: "int \<Rightarrow> (int \<times> int) list \<Rightarrow> bool" where
  "ranges_ok n rs = (sorted_wrt (\<lambda>a b. snd a < fst b) rs
     \<and> (\<forall>r \<in> set rs. 1 \<le> fst r \<and> fst r \<le> snd r \<and> snd r \<le> n))"

definition scan_inv :: "int \<Rightarrow> (int \<times> int) list \<Rightarrow> int option \<Rightarrow> bool" where
  "scan_inv k rs op = (ranges_ok (k - 1) rs
     \<and> (case op of None \<Rightarrow> True | Some st \<Rightarrow> 1 \<le> st \<and> st < k \<and> (\<forall>r \<in> set rs. snd r < st)))"

definition ranges :: "'a Section_scheme list \<Rightarrow> (int \<times> int) list" where
  "ranges secs = map (\<lambda>s. (line s, endLine s)) secs"


definition sized :: "MSection \<Rightarrow> bool" where
  "sized s = (size s = endLine s - line s + 1)"




text \<open>
  For the round trip of the codec: the unit before a position, strings of white space and
  of digits, positions at which the row pattern cannot match (\<open>dead\<close>), cells of the
  table head, the captures and the text of a generated row, and text without the comment
  end (\<open>quiet\<close>).
\<close>

definition prev :: "nat option \<Rightarrow> jstring \<Rightarrow> nat option" where
  "prev p u = (if u = [] then p else Some (last u))"




definition dead :: "jstring \<Rightarrow> jstring \<Rightarrow> bool" where
  "dead u s = (\<forall>v w p. u = v @ w \<longrightarrow> w \<noteq> [] \<longrightarrow> attempt row_re p (w @ s) = None)"






definition quiet :: "jstring \<Rightarrow> jstring \<Rightarrow> bool" where
  "quiet u s = (\<forall>v w. u = v @ w \<longrightarrow> w \<noteq> [] \<longrightarrow> \<not> starts_with (w @ s) [42, 47])"

section \<open>Example files\<close>

definition notes_txt :: File where
  "notes_txt = \<lparr>path = js ''notes.txt'', base = js ''notes.txt'', ext = js ''.txt'',
     content = js ''hello''\<rparr>"

definition plain_ts :: File where
  "plain_ts = \<lparr>path = js ''a.ts'', base = js ''a.ts'', ext = js ''.ts'', content = js ''x''\<rparr>"

definition import_ts :: File where
  "import_ts = \<lparr>path = js ''a.ts'', base = js ''a.ts'', ext = js ''.ts'',
     content = js ''import a''\<rparr>"


text \<open>A two-line TypeScript source whose first line only matches an auto-detection pattern.\<close>

definition two_lines :: jstring where
  "two_lines = js ''import a'' @ [10] @ js ''const x = 1''"

text \<open>A block in the four-column format of the skill document (no Size column).\<close>

definition skill_block :: jstring where
  "skill_block = js ''/**'' @ [10] @ js '' * @ai-index'' @ [10]
     @ js '' * | Section | Line | End | Description |'' @ [10]
     @ js '' * |---------|------|-----|-------------|'' @ [10]
     @ js '' * | imports | 1    | 45  | Dependencies |'' @ [10] @ js '' */''"

text \<open>A TypeScript file of five lines with two regions.\<close>

definition regions_ts :: File where
  "regions_ts = \<lparr>path = js ''r.ts'', base = js ''r.ts'', ext = js ''.ts'',
     content = js ''//#region a'' @ [10] @ js ''x'' @ [10] @ js ''//#endregion'' @ [10]
       @ js ''//#region b'' @ [10] @ js ''y''\<rparr>"

text \<open>A TypeScript file with an index block between a first and a last line.\<close>

definition small_block :: jstring where
  "small_block = js ''/**'' @ [10] @ js '' * @ai-index'' @ [10] @ js '' * | main | 1 | 6 | 6 | all |''
     @ [10] @ js '' */''"

definition indexed_ts :: File where
  "indexed_ts = \<lparr>path = js ''i.ts'', base = js ''i.ts'', ext = js ''.ts'',
     content = js ''// x'' @ [10] @ small_block @ [10] @ js ''y''\<rparr>"




section \<open>Evaluation of the model on concrete inputs\<close>

lemmas re_eval = search_def attempt_def test_def seq_def js_def is_space_def is_digit_def
  is_word_def is_dot_def is_dash_def is_line_terminator_def canon_def group_def trim_def

lemmas plugin_eval = getLanguagePlugin_def LANGUAGE_PLUGINS_def detectLanguage_def
  LANGUAGE_CONFIG_def

lemmas pattern_eval = ts_regionStart_def ts_regionEnd_def ts_sectionMarker_def region_tail_def
  marker_tail_def ts_autoPatterns_def ap_def rule_def patterns_def langPatterns_def pattern_or_def

lemma ts_plugin: "getLanguagePlugin (js ''.ts'') = Some (hd LANGUAGE_PLUGINS)"
  by (simp add: plugin_eval js_def)

lemma ts_config: "detectLanguage (js ''.ts'') = Some (hd LANGUAGE_CONFIG)"
  by (simp add: plugin_eval js_def)

lemma plain_explicit: "findSections (js ''x'') (getLanguagePlugin (js ''.ts'')) = []"
  by (simp add: ts_plugin)
    (simp add: findSections_def fs_step_def close_at_def LANGUAGE_PLUGINS_def pattern_eval re_eval)

lemma plain_auto: "cli_detectSectionsAuto (js ''x'') (getLanguagePlugin (js ''.ts'')) = []"
  by (simp add: ts_plugin)
    (simp add: cli_detectSectionsAuto_def detect_line_def group_step_def LANGUAGE_PLUGINS_def
      pattern_eval re_eval)

lemma plain_mcp_explicit: "detectSectionsExplicit [js ''x''] (detectLanguage (js ''.ts'')) = []"
  by (simp add: ts_config)
    (simp add: detectSectionsExplicit_def ex_step_def LANGUAGE_CONFIG_def pattern_eval re_eval)

lemma plain_mcp_auto: "mcp_detectSectionsAuto [js ''x''] (detectLanguage (js ''.ts'')) = []"
  by (simp add: ts_config)
    (simp add: mcp_detectSectionsAuto_def auto_step_def LANGUAGE_CONFIG_def pattern_eval re_eval)

lemma import_explicit: "findSections (js ''import a'') (getLanguagePlugin (js ''.ts'')) = []"
  by (simp add: ts_plugin)
    (simp add: findSections_def fs_step_def close_at_def LANGUAGE_PLUGINS_def pattern_eval re_eval)

lemma import_auto:
  "cli_detectSectionsAuto (js ''import a'') (getLanguagePlugin (js ''.ts''))
   = [\<lparr>name = js ''imports'', line = 1, endLine = 1, desc = []\<rparr>]"
  by (simp add: ts_plugin)
    (simp add: cli_detectSectionsAuto_def detect_line_def group_step_def LANGUAGE_PLUGINS_def
      pattern_eval re_eval)

lemma split_x: "split_nl (js ''x'') = [js ''x'']"
  by (simp add: js_def)

lemma split_import: "split_nl (js ''import a'') = [js ''import a'']"
  by (simp add: js_def)

lemmas parse_eval = parseIndex_def block_re_def row_re_def matchAll_def matchAll_from.simps
  parse_row_def parseInt_def digits_val_def

section \<open>Resolution of the section list\<close>

lemma describe_all_length: "describe_all xs = Inr ys \<Longrightarrow> length ys = length xs"
  by (induction xs arbitrary: ys) (auto split: sum.splits)

lemma describe_main: "describe_all [main_section n] = Inr [main_section n]"
  by (simp add: describe_def main_section_def js_def)

lemma lib_resolved:
  "lib_indexFile now f = Inr r \<Longrightarrow>
   \<exists>pl. getLanguagePlugin (ext f) = Some pl
     \<and> resolved r = (if findSections (content f) (Some pl) = []
                      then [main_section (int (length (split_nl (content f))))]
                      else findSections (content f) (Some pl))
     \<and> trace r = [Explicit]"
  by (auto simp: lib_indexFile_def Let_def split: option.splits)

lemma cli_resolved:
  "cli_indexFile now ml f = Inr (Success r) \<Longrightarrow>
   \<exists>pl. getLanguagePlugin (ext f) = Some pl
     \<and> describe_all (fst (cli_resolve (content f) pl)) = Inr (resolved r)
     \<and> trace r = snd (cli_resolve (content f) pl)"
  by (auto simp: cli_indexFile_def Let_def split: option.splits if_splits sum.splits prod.splits)

lemma parse_none_x: "parseIndex (js ''x'') = None"
  by (simp add: parseIndex_def block_re_def re_eval)

lemma lib_plain_runs: "\<exists>r. lib_indexFile (js ''T'') plain_ts = Inr r"
  by (simp add: lib_indexFile_def plain_ts_def ts_plugin Let_def)

lemma describe_main1: "describe (main_section n) = Inr (main_section n)"
  by (simp add: describe_def main_section_def js_def)

lemma cli_plain_runs: "\<exists>r. cli_indexFile (js ''T'') 0 plain_ts = Inr (Success r)"
  using plain_explicit plain_auto
  by (simp add: cli_indexFile_def plain_ts_def ts_plugin Let_def cli_resolve_def describe_main1 split_x)


section \<open>Invariants of the scanners\<close>

lemma ranges_simps [simp]:
  "ranges [] = []" "ranges (xs @ ys) = ranges xs @ ranges ys"
  "ranges (s # xs) = (line s, endLine s) # ranges xs"
  by (simp_all add: ranges_def)



lemma scan_inv_drop: "scan_inv k rs op \<Longrightarrow> scan_inv (k + 1) rs None"
  by (auto simp: scan_inv_def ranges_ok_def split: option.splits)






lemma scan_inv_pos: "scan_inv k rs (Some st) \<Longrightarrow> 1 \<le> k"
  by (simp add: scan_inv_def)





text \<open>The scanners of the server.\<close>

lemma set_end_simps [simp]:
  "line (set_end cs e) = line cs" "endLine (set_end cs e) = e" "sized (set_end cs e)"
  "name (set_end cs e) = name cs"
  by (simp_all add: set_end_def sized_def)

lemma sized_new [simp]: "sized \<lparr>name = n, line = a, endLine = a, desc = d, size = 1\<rparr>"
  by (simp add: sized_def)



























lemma parse_none_regions: "parseIndex (content regions_ts) = None"
  by (simp add: regions_ts_def parseIndex_def block_re_def re_eval)




section \<open>Spans of matches\<close>

text \<open>A matcher calls its continuation on a suffix of the input it was given.\<close>

lemma lit_suffix:
  "lit w k p s c = Some res \<Longrightarrow> \<exists>p'. k p' (drop (length w) s) c = Some res \<and> take (length w) s = w"
proof (induction w arbitrary: p s)
  case Nil
  then show ?case by auto
next
  case (Cons a w)
  then show ?case by (cases s) (auto split: if_splits)
qed

lemma liti_suffix:
  "liti w k p s c = Some res \<Longrightarrow> \<exists>p' s'. k p' s' c = Some res \<and> (\<exists>u. s = u @ s')"
proof (induction w arbitrary: p s)
  case Nil
  then show ?case by auto
next
  case (Cons a w)
  show ?case
  proof (cases s)
    case Nil
    with Cons.prems show ?thesis by simp
  next
    case (Cons x xs)
    with Cons.prems have "liti w k (Some x) xs c = Some res" by (auto split: if_splits)
    from Cons.IH [OF this] obtain p' s' u where "k p' s' c = Some res" "xs = u @ s'" by blast
    with Cons show ?thesis by (intro exI [of _ p'] exI [of _ s']) (auto intro: exI [of _ "x # u"])
  qed
qed

lemma rep_greedy_suffix:
  "rep_greedy P n k p s c = Some res \<Longrightarrow> \<exists>p' s'. k p' s' c = Some res \<and> (\<exists>u. s = u @ s')"
proof (induction s arbitrary: n p)
  case Nil
  then show ?case by (auto split: if_splits)
next
  case (Cons x xs)
  show ?case
  proof (cases "P x \<and> rep_greedy P (n - 1) k (Some x) xs c = Some res")
    case True
    from Cons.IH [of "n - 1" "Some x"] True obtain p' s' u where "k p' s' c = Some res" "xs = u @ s'"
      by blast
    then show ?thesis by (intro exI [of _ p'] exI [of _ s']) (auto intro: exI [of _ "x # u"])
  next
    case False
    with Cons.prems have "k p (x # xs) c = Some res"
      by (auto split: if_splits option.splits)
    then show ?thesis by (intro exI [of _ p] exI [of _ "x # xs"]) auto
  qed
qed

lemma rep_lazy_suffix:
  "rep_lazy P n k p s c = Some res \<Longrightarrow> \<exists>p' s'. k p' s' c = Some res \<and> (\<exists>u. s = u @ s')"
proof (induction s arbitrary: n p)
  case Nil
  then show ?case by (auto split: if_splits)
next
  case (Cons x xs)
  show ?case
  proof (cases "k p (x # xs) c = Some res")
    case True
    then show ?thesis by (intro exI [of _ p] exI [of _ "x # xs"]) auto
  next
    case False
    with Cons.prems have "\<exists>n'. rep_lazy P n' k (Some x) xs c = Some res"
      by (auto split: if_splits option.splits)
    then obtain n' where "rep_lazy P n' k (Some x) xs c = Some res" by blast
    from Cons.IH [OF this] obtain p' s' u where "k p' s' c = Some res" "xs = u @ s'" by blast
    then show ?thesis by (intro exI [of _ p'] exI [of _ s']) (auto intro: exI [of _ "x # u"])
  qed
qed

lemma m_suffix:
  "m r k p s c = Some res \<Longrightarrow> \<exists>p' s' c'. k p' s' c' = Some res \<and> (\<exists>u. s = u @ s')"
proof (induction r arbitrary: k p s c)
  case Eps
  then show ?case by auto
next
  case (Lit w)
  then have "lit w k p s c = Some res" by simp
  from lit_suffix [OF this] obtain p' where "k p' (drop (length w) s) c = Some res" by blast
  moreover have "s = take (length w) s @ drop (length w) s" by simp
  ultimately show ?case by blast
next
  case (LitI w)
  then show ?case using liti_suffix [of w k p s c res] by auto
next
  case (Cls P)
  show ?case
  proof (cases s)
    case Nil
    with Cls show ?thesis by simp
  next
    case (Cons x xs)
    with Cls have "k (Some x) xs c = Some res" by (auto split: if_splits)
    moreover have "s = [x] @ xs" using Cons by simp
    ultimately show ?thesis by blast
  qed
next
  case (Rep md n P)
  then show ?case
    using rep_greedy_suffix [of P n k p s c res] rep_lazy_suffix [of P n k p s c res]
    by (cases md) auto
next
  case (Seq a b)
  then have "m a (m b k) p s c = Some res" by simp
  from Seq.IH(1) [OF this] obtain p1 s1 c1 u1 where 1: "m b k p1 s1 c1 = Some res" "s = u1 @ s1"
    by blast
  from Seq.IH(2) [OF 1(1)] obtain p2 s2 c2 u2 where 2: "k p2 s2 c2 = Some res" "s1 = u2 @ s2"
    by blast
  from 1 2 have "s = (u1 @ u2) @ s2" by simp
  with 2 show ?case by blast
next
  case (Alt a b)
  then show ?case by (auto split: option.splits)
next
  case (Opt a)
  then show ?case by (auto split: option.splits)
next
  case (Grp i a)
  then have "m a (\<lambda>p' s' c'. k p' s' (c'(i \<mapsto> take (length s - length s') s))) p s c = Some res"
    by simp
  from Grp.IH [OF this] show ?case by blast
next
  case Bol
  then show ?case by (auto split: if_splits)
next
  case BolM
  then show ?case by (auto split: if_splits)
next
  case Eol
  then show ?case by (auto split: if_splits)
qed

lemma attempt_suffix: "attempt r p s = Some (s', c) \<Longrightarrow> \<exists>u. s = u @ s'"
  using m_suffix [of r "\<lambda>p' s' c'. Some (s', c')" p s "\<lambda>i. None" "(s', c)"]
  by (auto simp: attempt_def)

lemma search_from_span:
  "search_from r i p s = Some (j, mt, c) \<Longrightarrow>
   \<exists>pre post. s = pre @ mt @ post \<and> j = i + length pre"
proof (induction r i p s rule: search_from.induct)
  case (1 r i p s)
  show ?case
  proof (cases "attempt r p s")
    case (Some a)
    obtain s' c' where a: "a = (s', c')" by (cases a)
    from attempt_suffix Some a obtain u where u: "s = u @ s'" by blast
    from "1.prems" Some a have "j = i" "mt = take (length s - length s') s"
      by (simp_all add: search_from.simps [of r i p s])
    with u show ?thesis by (intro exI [of _ "[]"] exI [of _ s']) simp
  next
    case None
    show ?thesis
    proof (cases s)
      case Nil
      with None "1.prems" show ?thesis by (simp add: search_from.simps [of r i p s])
    next
      case (Cons x xs)
      with None "1.prems" have "search_from r (i + 1) (Some x) xs = Some (j, mt, c)"
        by (simp add: search_from.simps [of r i p s])
      from "1.IH" [OF None Cons this] obtain pre post where
        "xs = pre @ mt @ post" "j = i + 1 + length pre" by blast
      with Cons show ?thesis by (intro exI [of _ "x # pre"] exI [of _ post]) simp
    qed
  qed
qed

lemma parseIndex_span:
  assumes "parseIndex cont = Some ex"
  shows "\<exists>pre post. cont = pre @ raw ex @ post \<and> startIndex ex = length pre
           \<and> endIndex ex = length pre + length (raw ex)"
proof -
  from assms obtain i mt c where s: "search block_re cont = Some (i, mt, c)"
    and ex: "raw ex = mt" "startIndex ex = i" "endIndex ex = i + length mt"
    by (auto simp: parseIndex_def split: option.splits)
  from search_from_span [of block_re 0 None cont i mt c] s ex show ?thesis
    by (auto simp: search_def)
qed

lemma insertIndex_replace:
  assumes "cont = pre @ old @ post" "startIndex ex = length pre"
    "endIndex ex = length pre + length old"
  shows "insertIndex cont blk (Some ex) = pre @ blk @ post"
  using assms by (simp add: insertIndex_def slice_def Let_def)


section \<open>The row pattern on a generated block\<close>

text \<open>Generic facts on the quantifiers.\<close>

lemma prev_simps [simp]: "prev p [] = p" "prev p (x # u) = prev (Some x) u"
  by (simp_all add: prev_def)

lemma lit_append: "lit w k p (w @ s) c = k (prev p w) s c"
  by (induction w arbitrary: p) simp_all

lemma lit_mismatch: "x \<noteq> a \<Longrightarrow> lit (a # w) k p (x # s) c = None"
  by simp






text \<open>The cells of a table row.\<close>

lemma bar_not_space [simp]: "\<not> is_space 124" "is_space 32" "is_space 10"
  by (simp_all add: is_space_def)















lemma dead_Nil [simp]: "dead [] s"
  by (simp add: dead_def)






















text \<open>The end of the block comment.\<close>

lemma quiet_Nil [simp]: "quiet [] s"
  by (simp add: quiet_def)

lemma quiet_Cons [simp]:
  "quiet (x # u) s \<longleftrightarrow> \<not> starts_with (x # u @ s) [42, 47] \<and> quiet u s"
proof
  assume q: "quiet (x # u) s"
  have "\<not> starts_with (x # u @ s) [42, 47]"
    using q [unfolded quiet_def, rule_format, of "[]" "x # u"] by simp
  moreover have "quiet u s"
    unfolding quiet_def
  proof (intro allI impI)
    fix v w assume "u = v @ w" "w \<noteq> []"
    then show "\<not> starts_with (w @ s) [42, 47]"
      using q [unfolded quiet_def, rule_format, of "x # v" w] by simp
  qed
  ultimately show "\<not> starts_with (x # u @ s) [42, 47] \<and> quiet u s" by blast
next
  assume a: "\<not> starts_with (x # u @ s) [42, 47] \<and> quiet u s"
  show "quiet (x # u) s"
    unfolding quiet_def
  proof (intro allI impI)
    fix v w assume vw: "x # u = v @ w" "w \<noteq> []"
    show "\<not> starts_with (w @ s) [42, 47]"
    proof (cases v)
      case Nil
      with vw a show ?thesis by auto
    next
      case (Cons y v')
      with vw have "u = v' @ w" by simp
      with a vw show ?thesis by (auto simp: quiet_def)
    qed
  qed
qed

lemma quiet_append [simp]: "quiet (u1 @ u2) s \<longleftrightarrow> quiet u1 (u2 @ s) \<and> quiet u2 s"
  by (induction u1) auto

lemma starts_with_star: "starts_with (x # t) [42, 47] \<longleftrightarrow> x = 42 \<and> t \<noteq> [] \<and> hd t = 47"
  by (cases t) auto


























section \<open>Unsupported languages\<close>

lemma no_plugin_txt: "getLanguagePlugin (js ''.txt'') = None"
  by (simp add: getLanguagePlugin_def LANGUAGE_PLUGINS_def js_def)

text \<open>
  C9, as stated, fails in the library: for a file whose extension is not in the registry,
  \<open>indexFile\<close> of \<open>src/index.mjs\<close> raises an Error.
\<close>

theorem unsupported_raises_in_library:
  "lib_indexFile (js ''T'') notes_txt = Inl (Error (js ''Unsupported file type: notes.txt''))"
  by (simp add: lib_indexFile_def notes_txt_def no_plugin_txt) (simp add: js_def)

text \<open>
  C9, amended: for a file whose extension is not in the registry, \<open>indexFile\<close> of the
  script raises nothing and returns a structured skip (reason \<open>unsupported\<close>, unless the
  minimum-lines threshold already skipped the file), while \<open>indexFile\<close> of the library raises
  the Error \<open>Unsupported file type: <path>\<close>.
\<close>

theorem unsupported_outcomes:
  assumes "getLanguagePlugin (ext f) = None"
  shows "(\<exists>sk. cli_indexFile now minLines f = Inr (Skipped sk))
       \<and> (\<not> (minLines \<noteq> 0 \<and> int (length (split_nl (content f))) < minLines)
            \<longrightarrow> cli_indexFile now minLines f = Inr (Skipped Unsupported))
       \<and> lib_indexFile now f = Inl (Error (js ''Unsupported file type: '' @ path f))"
  using assms by (simp add: cli_indexFile_def lib_indexFile_def Let_def)

theorem unsupported_outcomes_witness:
  "getLanguagePlugin (ext notes_txt) = None
   \<and> cli_indexFile (js ''T'') 0 notes_txt = Inr (Skipped Unsupported)
   \<and> lib_indexFile (js ''T'') notes_txt
       = Inl (Error (js ''Unsupported file type: '' @ path notes_txt))"
proof -
  have h: "getLanguagePlugin (ext notes_txt) = None"
    by (simp add: notes_txt_def no_plugin_txt)
  from unsupported_outcomes [OF h, of "js ''T''" 0] h show ?thesis by simp
qed

text \<open>
  C2: the resolved section list is never empty, and when every scanner of the path returns
  no section it is exactly the section \<open>main\<close> from line 1 to the number of lines. The
  three paths are the server's \<open>generateIndex\<close>, the library's \<open>indexFile\<close> (which has
  the explicit scanner only) and the script's \<open>indexFile\<close>.
\<close>

theorem fallback_main_section:
  fixes f :: File
  defines "n \<equiv> int (length (split_nl (content f)))"
  shows "sections (mcp_generateIndex f) \<noteq> []
    \<and> (detectSectionsExplicit (split_nl (content f)) (detectLanguage (ext f)) = []
        \<and> mcp_detectSectionsAuto (split_nl (content f)) (detectLanguage (ext f)) = []
        \<longrightarrow> sections (mcp_generateIndex f)
            = [\<lparr>name = js ''main'', line = 1, endLine = n, desc = js ''Main content'', size = n\<rparr>])
    \<and> (lib_indexFile now f = Inr r
        \<longrightarrow> resolved r \<noteq> []
          \<and> (findSections (content f) (getLanguagePlugin (ext f)) = []
              \<longrightarrow> resolved r = [\<lparr>name = js ''main'', line = 1, endLine = n, desc = js ''Main content''\<rparr>]))
    \<and> (cli_indexFile now ml f = Inr (Success r')
        \<longrightarrow> resolved r' \<noteq> []
          \<and> (findSections (content f) (getLanguagePlugin (ext f)) = []
              \<and> cli_detectSectionsAuto (content f) (getLanguagePlugin (ext f)) = []
              \<longrightarrow> resolved r' = [\<lparr>name = js ''main'', line = 1, endLine = n, desc = js ''Main content''\<rparr>]))"
proof (intro conjI impI)
  show "sections (mcp_generateIndex f) \<noteq> []"
    by (simp add: mcp_generateIndex_def mcp_resolve_def Let_def split: prod.splits if_splits)
next
  assume "detectSectionsExplicit (split_nl (content f)) (detectLanguage (ext f)) = []
        \<and> mcp_detectSectionsAuto (split_nl (content f)) (detectLanguage (ext f)) = []"
  then show "sections (mcp_generateIndex f)
            = [\<lparr>name = js ''main'', line = 1, endLine = n, desc = js ''Main content'', size = n\<rparr>]"
    by (simp add: mcp_generateIndex_def mcp_resolve_def Let_def n_def)
next
  assume a: "lib_indexFile now f = Inr r"
  from lib_resolved [OF a] show "resolved r \<noteq> []" by (auto split: if_splits)
  assume "findSections (content f) (getLanguagePlugin (ext f)) = []"
  with lib_resolved [OF a]
  show "resolved r = [\<lparr>name = js ''main'', line = 1, endLine = n, desc = js ''Main content''\<rparr>]"
    by (auto simp: main_section_def n_def)
next
  assume a: "cli_indexFile now ml f = Inr (Success r')"
  from cli_resolved [OF a] obtain pl where pl: "getLanguagePlugin (ext f) = Some pl"
    and d: "describe_all (fst (cli_resolve (content f) pl)) = Inr (resolved r')" by blast
  have "fst (cli_resolve (content f) pl) \<noteq> []"
    by (simp add: cli_resolve_def Let_def split: prod.splits if_splits)
  with describe_all_length [OF d] show "resolved r' \<noteq> []" by auto
  assume "findSections (content f) (getLanguagePlugin (ext f)) = []
              \<and> cli_detectSectionsAuto (content f) (getLanguagePlugin (ext f)) = []"
  with pl have "fst (cli_resolve (content f) pl) = [main_section n]"
    by (simp add: cli_resolve_def Let_def n_def)
  with d have "describe_all [main_section n] = Inr (resolved r')" by (simp only:)
  then have "resolved r' = [main_section n]" by (simp only: describe_main sum.inject)
  then show "resolved r' = [\<lparr>name = js ''main'', line = 1, endLine = n, desc = js ''Main content''\<rparr>]"
    by (simp add: main_section_def)
qed

theorem fallback_main_section_witness:
  "sections (mcp_generateIndex plain_ts)
     = [\<lparr>name = js ''main'', line = 1, endLine = 1, desc = js ''Main content'', size = 1\<rparr>]
   \<and> (\<exists>r. lib_indexFile (js ''T'') plain_ts = Inr r
        \<and> resolved r = [\<lparr>name = js ''main'', line = 1, endLine = 1, desc = js ''Main content''\<rparr>])
   \<and> (\<exists>r. cli_indexFile (js ''T'') 0 plain_ts = Inr (Success r)
        \<and> resolved r = [\<lparr>name = js ''main'', line = 1, endLine = 1, desc = js ''Main content''\<rparr>])"
proof -
  obtain r where r: "lib_indexFile (js ''T'') plain_ts = Inr r" using lib_plain_runs by blast
  obtain r' where r': "cli_indexFile (js ''T'') 0 plain_ts = Inr (Success r')"
    using cli_plain_runs by blast
  have e: "content plain_ts = js ''x''" "ext plain_ts = js ''.ts''" by (simp_all add: plain_ts_def)
  from fallback_main_section [of plain_ts "js ''T''" r 0 r'] r r'
  show ?thesis
    by (simp add: e split_x plain_explicit plain_auto plain_mcp_explicit plain_mcp_auto)
qed


section \<open>When the auto-detection scanner runs\<close>

text \<open>
  C5, as stated, fails in the library: on a TypeScript file with the only line
  \<open>import a\<close> the explicit scanner returns no section, yet \<open>indexFile\<close> of
  \<open>src/index.mjs\<close> runs no auto-detection and resolves to \<open>main\<close>; the auto-detection
  scanner of the script finds the section \<open>imports\<close> there.
\<close>

theorem library_skips_auto_detection:
  "map_sum id trace (lib_indexFile (js ''T'') import_ts) = Inr [Explicit]
   \<and> map_sum id resolved (lib_indexFile (js ''T'') import_ts) = Inr [main_section 1]
   \<and> findSections (content import_ts) (getLanguagePlugin (ext import_ts)) = []
   \<and> cli_detectSectionsAuto (content import_ts) (getLanguagePlugin (ext import_ts))
       = [\<lparr>name = js ''imports'', line = 1, endLine = 1, desc = []\<rparr>]"
  using import_explicit import_auto
  by (simp add: lib_indexFile_def import_ts_def ts_plugin Let_def split_import)

text \<open>
  C5, amended: in the server's \<open>generateIndex\<close> and in the script's \<open>indexFile\<close> the
  auto-detection scanner runs exactly when the explicit scanner returns the empty list,
  and its result is taken when it is not empty (the explicit result is taken when that is
  not empty); the library's \<open>indexFile\<close> runs the explicit scanner only.
\<close>

theorem auto_after_empty_explicit:
  "(Auto \<in> set (snd (mcp_resolve lines cfg)) \<longleftrightarrow> detectSectionsExplicit lines cfg = [])
   \<and> (detectSectionsExplicit lines cfg = [] \<and> mcp_detectSectionsAuto lines cfg \<noteq> []
        \<longrightarrow> fst (mcp_resolve lines cfg) = mcp_detectSectionsAuto lines cfg)
   \<and> (detectSectionsExplicit lines cfg \<noteq> []
        \<longrightarrow> fst (mcp_resolve lines cfg) = detectSectionsExplicit lines cfg)
   \<and> (Auto \<in> set (snd (cli_resolve c pl)) \<longleftrightarrow> findSections c (Some pl) = [])
   \<and> (findSections c (Some pl) = [] \<and> cli_detectSectionsAuto c (Some pl) \<noteq> []
        \<longrightarrow> fst (cli_resolve c pl) = cli_detectSectionsAuto c (Some pl))
   \<and> (findSections c (Some pl) \<noteq> [] \<longrightarrow> fst (cli_resolve c pl) = findSections c (Some pl))
   \<and> (cli_indexFile now ml f = Inr (Success r)
        \<longrightarrow> (Auto \<in> set (trace r) \<longleftrightarrow> findSections (content f) (getLanguagePlugin (ext f)) = []))
   \<and> (lib_indexFile now f = Inr r' \<longrightarrow> trace r' = [Explicit])"
proof (intro conjI impI)
  assume a: "cli_indexFile now ml f = Inr (Success r)"
  from cli_resolved [OF a] obtain pl' where "getLanguagePlugin (ext f) = Some pl'"
    "trace r = snd (cli_resolve (content f) pl')" by blast
  then show "Auto \<in> set (trace r) \<longleftrightarrow> findSections (content f) (getLanguagePlugin (ext f)) = []"
    by (simp add: cli_resolve_def Let_def)
next
  assume a: "lib_indexFile now f = Inr r'"
  from lib_resolved [OF a] show "trace r' = [Explicit]" by blast
qed (simp_all add: mcp_resolve_def cli_resolve_def Let_def)

theorem auto_after_empty_explicit_witness:
  "Auto \<in> set (snd (mcp_resolve [js ''x''] (detectLanguage (js ''.ts''))))
   \<and> Auto \<in> set (snd (cli_resolve (js ''import a'') (hd LANGUAGE_PLUGINS)))
   \<and> fst (cli_resolve (js ''import a'') (hd LANGUAGE_PLUGINS))
       = [\<lparr>name = js ''imports'', line = 1, endLine = 1, desc = []\<rparr>]
   \<and> (\<exists>r. cli_indexFile (js ''T'') 0 plain_ts = Inr (Success r) \<and> Auto \<in> set (trace r))
   \<and> (\<exists>r. lib_indexFile (js ''T'') plain_ts = Inr r \<and> trace r = [Explicit])"
proof -
  obtain r' where r': "lib_indexFile (js ''T'') plain_ts = Inr r'" using lib_plain_runs by blast
  obtain r where r: "cli_indexFile (js ''T'') 0 plain_ts = Inr (Success r)"
    using cli_plain_runs by blast
  have e: "content plain_ts = js ''x''" "ext plain_ts = js ''.ts''" by (simp_all add: plain_ts_def)
  have i: "findSections (js ''import a'') (Some (hd LANGUAGE_PLUGINS)) = []"
    "cli_detectSectionsAuto (js ''import a'') (Some (hd LANGUAGE_PLUGINS))
       = [\<lparr>name = js ''imports'', line = 1, endLine = 1, desc = []\<rparr>]"
    using import_explicit import_auto by (simp_all add: ts_plugin)
  from auto_after_empty_explicit [of "[js ''x'']" "detectLanguage (js ''.ts'')" "js ''import a''"
      "hd LANGUAGE_PLUGINS" "js ''T''" 0 plain_ts r r'] r r'
  show ?thesis
    by (simp add: e i plain_explicit plain_mcp_explicit)
qed


section \<open>The tolerance of the verifier\<close>













section \<open>The end of the last auto-detected section\<close>

text \<open>
  C6 holds for \<open>detectSectionsAuto\<close> of the script, which closes the open section at
  \<open>lines.length\<close>:
\<close>

lemma script_auto_closes_at_last_line:
  assumes "snd (group_loop (detect_loop (autoPatterns pl) 1 (split_nl c)) 1
             (length (split_nl c)) ([], None)) = Some (n, start)"
    and "n \<noteq> []"
  shows "cli_detectSectionsAuto c (Some pl) \<noteq> []
    \<and> endLine (last (cli_detectSectionsAuto c (Some pl))) = int (length (split_nl c))"
  using assms by (simp add: cli_detectSectionsAuto_def Let_def)

text \<open>
  C6 fails for \<open>detectSectionsAuto\<close> of the server, which pushes the open section with
  the end it had at its last matching line: in a file of two lines whose first line is an
  import, the section \<open>imports\<close> ends at line 1, not at line 2.
\<close>

theorem server_auto_last_section_end:
  "mcp_detectSectionsAuto (split_nl two_lines) (detectLanguage (js ''.ts''))
   = [\<lparr>name = js ''imports'', line = 1, endLine = 1, desc = js ''Import statements'', size = 1\<rparr>]
   \<and> int (length (split_nl two_lines)) = 2"
  by (simp add: ts_config)
    (simp add: two_lines_def mcp_detectSectionsAuto_def auto_step_def LANGUAGE_CONFIG_def
      pattern_eval re_eval)

section \<open>The size of a parsed row\<close>

text \<open>
  C10 fails in \<open>parseIndex\<close>: for a row without a Size column the size is computed as
  \<open>end - line\<close>, one less than \<open>end - line + 1\<close>, which the generator writes and the
  server's sections carry. The row \<open>imports | 1 | 45 | Dependencies\<close> gets the size 44.
\<close>

theorem parsed_size_without_size_column:
  "map_option psections (parseIndex skill_block)
   = Some [(js ''imports'',
       \<lparr>s_line = Num 1, s_end = Num 45, s_size = Num 44, s_desc = js ''Dependencies''\<rparr>)]"
  by (simp add: skill_block_def parse_eval re_eval)

section \<open>Order of the sections\<close>




section \<open>Reading a section\<close>





section \<open>Replacing an existing block\<close>

lemma indexed_parse:
  "\<exists>ex. parseIndex (content indexed_ts) = Some ex \<and> raw ex = small_block \<and> startIndex ex = 5"
  by (simp add: indexed_ts_def small_block_def parse_eval re_eval)

lemma indexed_explicit: "findSections (content indexed_ts) (getLanguagePlugin (js ''.ts'')) = []"
  by (simp add: ts_plugin)
    (simp add: indexed_ts_def small_block_def findSections_def fs_step_def close_at_def is_open_def
      LANGUAGE_PLUGINS_def pattern_eval re_eval)

lemma indexed_auto: "cli_detectSectionsAuto (content indexed_ts) (getLanguagePlugin (js ''.ts'')) = []"
  by (simp add: ts_plugin)
    (simp add: indexed_ts_def small_block_def cli_detectSectionsAuto_def detect_line_def
      group_step_def LANGUAGE_PLUGINS_def pattern_eval re_eval)

lemma lib_indexed_runs: "\<exists>r. lib_indexFile (js ''T'') indexed_ts = Inr r"
  by (simp add: lib_indexFile_def Let_def indexed_ts_def ts_plugin)

lemma cli_indexed_runs: "\<exists>r. cli_indexFile (js ''T'') 0 indexed_ts = Inr (Success r)"
proof -
  have e: "ext indexed_ts = js ''.ts''" by (simp add: indexed_ts_def)
  show ?thesis
    using indexed_explicit indexed_auto
    by (simp add: cli_indexFile_def Let_def e ts_plugin cli_resolve_def describe_main1)
qed

text \<open>
  C7: when the content has an index block, the content written by \<open>indexFile\<close> (of the
  library and of the script) is the old content with the span of the old block replaced
  by the new block: what precedes and what follows the old block is unchanged, and the
  new block starts at the offset of the old one.
\<close>

theorem replace_in_place:
  assumes "parseIndex (content f) = Some ex"
  shows "\<exists>pre post. content f = pre @ raw ex @ post \<and> length pre = startIndex ex
     \<and> (lib_indexFile now f = Inr r
          \<longrightarrow> written r = pre @ generateIndex now (resolved r) (lineCount r) @ post)
     \<and> (cli_indexFile now ml f = Inr (Success r')
          \<longrightarrow> written r' = pre @ generateIndex now (resolved r') (lineCount r') @ post)"
proof -
  from parseIndex_span [OF assms] obtain pre post where
    s: "content f = pre @ raw ex @ post" "startIndex ex = length pre"
       "endIndex ex = length pre + length (raw ex)" by blast
  note ins = insertIndex_replace [OF s]
  have "lib_indexFile now f = Inr r
          \<Longrightarrow> written r = pre @ generateIndex now (resolved r) (lineCount r) @ post"
    using assms ins by (auto simp: lib_indexFile_def Let_def split: option.splits)
  moreover have "cli_indexFile now ml f = Inr (Success r')
          \<Longrightarrow> written r' = pre @ generateIndex now (resolved r') (lineCount r') @ post"
    using assms ins
    by (auto simp: cli_indexFile_def Let_def split: option.splits if_splits sum.splits prod.splits)
  ultimately show ?thesis using s by auto
qed



theorem replace_in_place_witness:
  "\<exists>ex r r'. parseIndex (content indexed_ts) = Some ex \<and> startIndex ex = 5
     \<and> lib_indexFile (js ''T'') indexed_ts = Inr r
     \<and> written r = js ''// x'' @ [10] @ generateIndex (js ''T'') (resolved r) (lineCount r)
                     @ [10] @ js ''y''
     \<and> cli_indexFile (js ''T'') 0 indexed_ts = Inr (Success r')
     \<and> written r' = js ''// x'' @ [10] @ generateIndex (js ''T'') (resolved r') (lineCount r')
                     @ [10] @ js ''y''"
proof -
  obtain ex where ex: "parseIndex (content indexed_ts) = Some ex" "raw ex = small_block"
    "startIndex ex = 5" using indexed_parse by blast
  obtain r where r: "lib_indexFile (js ''T'') indexed_ts = Inr r" using lib_indexed_runs by blast
  obtain r' where r': "cli_indexFile (js ''T'') 0 indexed_ts = Inr (Success r')"
    using cli_indexed_runs by blast
  from replace_in_place [OF ex(1), of "js ''T''" r 0 r'] r r' ex obtain pre post where
    p: "content indexed_ts = pre @ small_block @ post" "length pre = 5"
       "written r = pre @ generateIndex (js ''T'') (resolved r) (lineCount r) @ post"
       "written r' = pre @ generateIndex (js ''T'') (resolved r') (lineCount r') @ post"
    by auto
  have c: "content indexed_ts = (js ''// x'' @ [10]) @ small_block @ ([10] @ js ''y'')"
    by (simp add: indexed_ts_def)
  have "length (js ''// x'' @ [10]) = length pre" using p(2) by (simp add: js_def)
  with p(1) c have "pre = js ''// x'' @ [10]" "post = [10] @ js ''y''"
    by (metis append_eq_append_conv same_append_eq)+
  with p ex r r' show ?thesis by auto
qed


section \<open>The round trip of the block codec\<close>





end
